theory Spec2Isabelle
  imports Main "HOL-Library.Word"
begin

section \<open>Python values handled by \<^verbatim>\<open>main.py\<close>\<close>

text \<open>
  A Python \<^verbatim>\<open>str\<close> is a sequence of Unicode code points and \<^verbatim>\<open>len\<close> counts
  code points, so a string is modelled as the list of its code points. String literals of
  the source are written \<open>py ''...''\<close>.
\<close>

type_synonym pystr = "nat list"

definition py :: "string \<Rightarrow> pystr" where
  "py s = map of_char s"

text \<open>
  The values \<^verbatim>\<open>response.json()\<close> and the identity provider's userinfo document can
  hold. A \<^verbatim>\<open>dict\<close> is the association list of its items, in insertion order and
  with distinct keys, read with \<open>map_of\<close>; a float is kept as its IEEE bit pattern, since
  no handler computes with it.
\<close>

datatype json =
    JNull
  | JBool bool
  | JInt int
  | JFloat "64 word"
  | JStr pystr
  | JArr "json list"
  | JObj "(pystr \<times> json) list"

text \<open>\<^verbatim>\<open>x[k]\<close> with a string key: \<open>None\<close> stands for the KeyError of a dict without
  the key and for the TypeError of every other value.\<close>

fun py_getitem :: "json \<Rightarrow> pystr \<Rightarrow> json option" where
  "py_getitem (JObj kvs) k = map_of kvs k"
| "py_getitem _ k = None"

text \<open>\<^verbatim>\<open>x.get(k, default)\<close>: only a dict has the method; \<open>None\<close> is the
  AttributeError of the other values.\<close>

fun py_dict_get :: "json \<Rightarrow> pystr \<Rightarrow> json \<Rightarrow> json option" where
  "py_dict_get (JObj kvs) k d = Some (case map_of kvs k of None \<Rightarrow> d | Some v \<Rightarrow> v)"
| "py_dict_get _ k d = None"

text \<open>\<^verbatim>\<open>for t in x\<close>: a list yields its elements, a dict its keys, a string its
  characters; the other values are not iterable (\<open>None\<close>).\<close>

fun py_iter :: "json \<Rightarrow> json list option" where
  "py_iter (JArr xs) = Some xs"
| "py_iter (JObj kvs) = Some (map (\<lambda>kv. JStr (fst kv)) kvs)"
| "py_iter (JStr s) = Some (map (\<lambda>c. JStr [c]) s)"
| "py_iter _ = None"

text \<open>\<^verbatim>\<open>len(x)\<close>: defined on strings, lists and dicts; a TypeError (\<open>None\<close>)
  otherwise.\<close>

fun py_len :: "json \<Rightarrow> nat option" where
  "py_len (JStr s) = Some (length s)"
| "py_len (JArr xs) = Some (length xs)"
| "py_len (JObj kvs) = Some (length kvs)"
| "py_len _ = None"

text \<open>A list comprehension \<^verbatim>\<open>[f(t) for t in ts]\<close> whose body may raise: the first
  exception aborts the whole comprehension.\<close>

primrec comprehension :: "('a \<Rightarrow> 'b option) \<Rightarrow> 'a list \<Rightarrow> 'b list option" where
  "comprehension f [] = Some []"
| "comprehension f (t # ts) =
     (case f t of
        None \<Rightarrow> None
      | Some v \<Rightarrow> (case comprehension f ts of None \<Rightarrow> None | Some vs \<Rightarrow> Some (v # vs)))"

text \<open>\<^verbatim>\<open>s.split(sep)\<close> for a one-character separator: every occurrence of the
  separator cuts, and empty pieces are kept.\<close>

fun split_acc :: "nat \<Rightarrow> pystr \<Rightarrow> pystr \<Rightarrow> pystr list" where
  "split_acc sep acc [] = [rev acc]"
| "split_acc sep acc (c # cs) =
     (if c = sep then rev acc # split_acc sep [] cs else split_acc sep (c # acc) cs)"

definition py_split :: "pystr \<Rightarrow> nat \<Rightarrow> pystr list" where
  "py_split s sep = split_acc sep [] s"

section \<open>The environment of a request\<close>

text \<open>
  What the module reads from outside itself: the environment variable
  \<^verbatim>\<open>EMAILS_PERMITIDOS\<close> (\<open>None\<close> when unset), the string configured under
  \<^verbatim>\<open>POKEAPI_BASE_URL\<close> (the \<^verbatim>\<open>config\<close> module is not part of the file; the key is
  taken to be set), the upstream catalog behind \<^verbatim>\<open>requests.get\<close>, Python's
  \<^verbatim>\<open>str.lower\<close>, and the index \<^verbatim>\<open>random.choice\<close> draws for a sequence of the
  given length.
\<close>

datatype http_reply =
    NetworkError
  | Reply int "json option"

text \<open>\<open>Reply status body\<close>: \<open>body\<close> is what \<^verbatim>\<open>response.json()\<close> returns, \<open>None\<close>
  when it raises because the body is not JSON. \<open>NetworkError\<close>: \<^verbatim>\<open>requests.get\<close>
  raised.\<close>

record world =
  getenv_EMAILS_PERMITIDOS :: "pystr option"
  POKEAPI_BASE_URL :: pystr
  requests_get :: "pystr \<Rightarrow> http_reply"
  str_lower :: "pystr \<Rightarrow> pystr"
  randbelow :: "nat \<Rightarrow> nat"

text \<open>Line 23: \<^verbatim>\<open>EMAILS_PERMITIDOS = os.getenv("EMAILS_PERMITIDOS", "").split(",")\<close>;
  44 is the code point of the comma.\<close>

definition EMAILS_PERMITIDOS :: "world \<Rightarrow> pystr list" where
  "EMAILS_PERMITIDOS w =
     py_split (case getenv_EMAILS_PERMITIDOS w of None \<Rightarrow> [] | Some s \<Rightarrow> s) 44"

text \<open>
  A request carries the Flask session and the query string. The session maps
  \<^verbatim>\<open>"user"\<close> to the userinfo object the callback stored (a JSON object: a dict of
  claims); \<^verbatim>\<open>request.args.get(k)\<close> is the first value of \<open>k\<close>, \<open>None\<close> when absent.
\<close>

type_synonym claims = "(pystr \<times> json) list"

record request =
  session :: "(pystr \<times> claims) list"
  args :: "(pystr \<times> pystr) list"

text \<open>A response, and the outcome of handling a request: the response together with the
  URLs fetched from the upstream catalog, in order.\<close>

datatype response =
    Json int json
  | Redirect pystr
  | Abort int

type_synonym outcome = "response \<times> pystr list"

section \<open>The authorization decorator (lines 110 to 124)\<close>

text \<open>The decorator reads the module's global \<^verbatim>\<open>EMAILS_PERMITIDOS\<close>; the model takes
  the value of that global as the argument \<open>allow_list\<close>. \<^verbatim>\<open>x not in allow_list\<close>
  compares \<open>x\<close> with each string of the list by \<^verbatim>\<open>==\<close>, and only a string equals a
  string. \<^verbatim>\<open>url_for("login")\<close> is the path of the route of line 72.\<close>

definition requiere_autorizacion ::
  "pystr list \<Rightarrow> (request \<Rightarrow> outcome) \<Rightarrow> request \<Rightarrow> outcome" where
  "requiere_autorizacion allow_list f rq =
     (case map_of (session rq) (py ''user'') of
        None \<Rightarrow> (Redirect (py ''/login''), [])
      | Some user \<Rightarrow>
          (case map_of user (py ''email'') of
             None \<Rightarrow> (Redirect (py ''/login''), [])
           | Some email \<Rightarrow>
               if email \<notin> set (map JStr allow_list) then (Abort 403, [])
               else f rq))"

section \<open>The three handlers (lines 126 to 211)\<close>

definition error_body :: "string \<Rightarrow> json" where
  "error_body msg = JObj [(py ''error'', JStr (py msg))]"

text \<open>The message of lines 137, 164 and 194, \<^verbatim>\<open>"Falta el parametro 'p'"\<close>, with the
  parameter's name between apostrophes (code point 39).\<close>

definition falta_el_parametro :: "string \<Rightarrow> string" where
  "falta_el_parametro p = ''Falta el parametro '' @ [CHR 0x27] @ p @ [CHR 0x27]"

definition internal_error :: response where
  "internal_error = Json 500 (error_body ''Error interno del servidor'')"

text \<open>Line 146: \<^verbatim>\<open>[t['type']['name'] for t in data.get('types', [])]\<close>.\<close>

definition type_name :: "json \<Rightarrow> json option" where
  "type_name t =
     (case py_getitem t (py ''type'') of
        None \<Rightarrow> None
      | Some ty \<Rightarrow> py_getitem ty (py ''name''))"

definition extract_types :: "json \<Rightarrow> json list option" where
  "extract_types data =
     (case py_dict_get data (py ''types'') (JArr []) of
        None \<Rightarrow> None
      | Some v \<Rightarrow>
          (case py_iter v of
             None \<Rightarrow> None
           | Some ts \<Rightarrow> comprehension type_name ts))"

text \<open>The f-strings of lines 140, 166 and 196.\<close>

definition pokemon_url :: "world \<Rightarrow> pystr \<Rightarrow> pystr" where
  "pokemon_url w name = POKEAPI_BASE_URL w @ py ''/pokemon/'' @ str_lower w name"

definition type_url :: "world \<Rightarrow> pystr \<Rightarrow> pystr" where
  "type_url w pokemon_type = POKEAPI_BASE_URL w @ py ''/type/'' @ str_lower w pokemon_type"

definition get_pokemon_type :: "world \<Rightarrow> request \<Rightarrow> outcome" where
  "get_pokemon_type w rq =
     (case map_of (args rq) (py ''name'') of
        None \<Rightarrow> (Json 400 (error_body (falta_el_parametro ''name'')), [])
      | Some name \<Rightarrow>
          if name = [] then (Json 400 (error_body (falta_el_parametro ''name'')), [])
          else
            (let url = pokemon_url w name in
             case requests_get w url of
               NetworkError \<Rightarrow> (internal_error, [url])
             | Reply status body \<Rightarrow>
                 if status \<noteq> 200 then (Json 404 (error_body ''Pokemon no encontrado''), [url])
                 else
                   (case body of
                      None \<Rightarrow> (internal_error, [url])
                    | Some data \<Rightarrow>
                        (case extract_types data of
                           None \<Rightarrow> (internal_error, [url])
                         | Some types \<Rightarrow>
                             (Json 200 (JObj [(py ''name'', JStr name), (py ''types'', JArr types)]),
                              [url])))))"

text \<open>Lines 172 and 201: \<^verbatim>\<open>[p['pokemon'] for p in data.get('pokemon', [])]\<close>.\<close>

definition pokemon_list :: "json \<Rightarrow> json list option" where
  "pokemon_list data =
     (case py_dict_get data (py ''pokemon'') (JArr []) of
        None \<Rightarrow> None
      | Some v \<Rightarrow>
          (case py_iter v of
             None \<Rightarrow> None
           | Some ps \<Rightarrow> comprehension (\<lambda>p. py_getitem p (py ''pokemon'')) ps))"

text \<open>\<^verbatim>\<open>random.choice(seq)\<close> is \<^verbatim>\<open>seq[i]\<close> for the index \<open>i\<close> drawn below
  \<^verbatim>\<open>len(seq)\<close>; an index out of range raises IndexError (\<open>None\<close>).\<close>

definition random_choice :: "world \<Rightarrow> 'a list \<Rightarrow> 'a option" where
  "random_choice w seq =
     (let i = randbelow w (length seq) in if i < length seq then Some (seq ! i) else None)"

definition get_random_pokemon_by_type :: "world \<Rightarrow> request \<Rightarrow> outcome" where
  "get_random_pokemon_by_type w rq =
     (case map_of (args rq) (py ''type'') of
        None \<Rightarrow> (Json 400 (error_body (falta_el_parametro ''type'')), [])
      | Some pokemon_type \<Rightarrow>
          if pokemon_type = [] then (Json 400 (error_body (falta_el_parametro ''type'')), [])
          else
            (let url = type_url w pokemon_type in
             case requests_get w url of
               NetworkError \<Rightarrow> (internal_error, [url])
             | Reply status body \<Rightarrow>
                 if status \<noteq> 200 then (Json 404 (error_body ''Tipo no encontrado''), [url])
                 else
                   (case body of
                      None \<Rightarrow> (internal_error, [url])
                    | Some data \<Rightarrow>
                        (case pokemon_list data of
                           None \<Rightarrow> (internal_error, [url])
                         | Some pokemons \<Rightarrow>
                             if pokemons = [] then
                               (Json 404 (error_body ''No se encontraron Pokemon para este tipo''),
                                [url])
                             else
                               (case random_choice w pokemons of
                                  None \<Rightarrow> (internal_error, [url])
                                | Some random_pokemon \<Rightarrow>
                                    (case py_getitem random_pokemon (py ''name'') of
                                       None \<Rightarrow> (internal_error, [url])
                                     | Some logged_name \<Rightarrow> (Json 200 random_pokemon, [url])))))))"

text \<open>\<^verbatim>\<open>max(xs, key=f)\<close>: the items are visited in order, the key of each is computed
  (an exception of the key function aborts), and the item kept is replaced only by one
  whose key is strictly greater. On an empty sequence \<^verbatim>\<open>max\<close> raises ValueError.\<close>

fun max_loop :: "('a \<Rightarrow> nat option) \<Rightarrow> 'a \<Rightarrow> nat \<Rightarrow> 'a list \<Rightarrow> 'a option" where
  "max_loop key maxitem maxval [] = Some maxitem"
| "max_loop key maxitem maxval (item # rest) =
     (case key item of
        None \<Rightarrow> None
      | Some val \<Rightarrow>
          if val > maxval then max_loop key item val rest
          else max_loop key maxitem maxval rest)"

definition py_max :: "('a \<Rightarrow> nat option) \<Rightarrow> 'a list \<Rightarrow> 'a option" where
  "py_max key xs =
     (case xs of
        [] \<Rightarrow> None
      | item # rest \<Rightarrow>
          (case key item of None \<Rightarrow> None | Some val \<Rightarrow> max_loop key item val rest))"

text \<open>Line 206: the key \<^verbatim>\<open>lambda x: len(x['name'])\<close>.\<close>

definition name_len :: "json \<Rightarrow> nat option" where
  "name_len x =
     (case py_getitem x (py ''name'') of None \<Rightarrow> None | Some n \<Rightarrow> py_len n)"

definition get_longest_name_pokemon :: "world \<Rightarrow> request \<Rightarrow> outcome" where
  "get_longest_name_pokemon w rq =
     (case map_of (args rq) (py ''type'') of
        None \<Rightarrow> (Json 400 (error_body (falta_el_parametro ''type'')), [])
      | Some pokemon_type \<Rightarrow>
          if pokemon_type = [] then (Json 400 (error_body (falta_el_parametro ''type'')), [])
          else
            (let url = type_url w pokemon_type in
             case requests_get w url of
               NetworkError \<Rightarrow> (internal_error, [url])
             | Reply status body \<Rightarrow>
                 if status \<noteq> 200 then (Json 404 (error_body ''Tipo no encontrado''), [url])
                 else
                   (case body of
                      None \<Rightarrow> (internal_error, [url])
                    | Some data \<Rightarrow>
                        (case pokemon_list data of
                           None \<Rightarrow> (internal_error, [url])
                         | Some pokemons \<Rightarrow>
                             if pokemons = [] then
                               (Json 404 (error_body ''No se encontraron Pokemon para este tipo''),
                                [url])
                             else
                               (case py_max name_len pokemons of
                                  None \<Rightarrow> (internal_error, [url])
                                | Some longest_pokemon \<Rightarrow>
                                    (case py_getitem longest_pokemon (py ''name'') of
                                       None \<Rightarrow> (internal_error, [url])
                                     | Some logged_name \<Rightarrow> (Json 200 longest_pokemon, [url])))))))"

text \<open>The three routes: each handler behind the decorator (lines 126 to 128, 153 to 155,
  183 to 185).\<close>

definition route_pokemon_type :: "world \<Rightarrow> request \<Rightarrow> outcome" where
  "route_pokemon_type w =
     requiere_autorizacion (EMAILS_PERMITIDOS w) (get_pokemon_type w)"

definition route_pokemon_random :: "world \<Rightarrow> request \<Rightarrow> outcome" where
  "route_pokemon_random w =
     requiere_autorizacion (EMAILS_PERMITIDOS w) (get_random_pokemon_by_type w)"

definition route_pokemon_longest :: "world \<Rightarrow> request \<Rightarrow> outcome" where
  "route_pokemon_longest w =
     requiere_autorizacion (EMAILS_PERMITIDOS w) (get_longest_name_pokemon w)"

text \<open>An instance of \<^verbatim>\<open>str.lower\<close> on ASCII text, to run the handlers on concrete
  requests.\<close>

definition ascii_lower :: "pystr \<Rightarrow> pystr" where
  "ascii_lower s = map (\<lambda>c. if 65 \<le> c \<and> c \<le> 90 then c + 32 else c) s"

section \<open>Example data\<close>

text \<open>A session as the callback stores it, for the given email claim.\<close>

definition session_of :: "json \<Rightarrow> (pystr \<times> claims) list" where
  "session_of email =
     [(py ''user'',
       [(py ''sub'', JStr (py ''auth0|1'')), (py ''name'', JStr (py ''Ash'')),
        (py ''email'', email)])]"

text \<open>A session whose userinfo object has no email claim.\<close>

definition session_without_email :: "(pystr \<times> claims) list" where
  "session_without_email =
     [(py ''user'', [(py ''sub'', JStr (py ''auth0|1'')), (py ''name'', JStr (py ''Ash''))])]"

definition ok_handler :: "request \<Rightarrow> outcome" where
  "ok_handler rq = (Json 200 (JStr (py ''ran'')), [py ''http://upstream''])"

text \<open>A catalog stub: one entity, and categories with three members, a tie, no member,
  a failing connection, a body that is not JSON, a body that is a JSON list, a body that
  is a JSON object of another shape and an overloaded server; every other URL is answered
  404.\<close>

definition electric_slot :: json where
  "electric_slot =
     JObj [(py ''slot'', JInt 1),
           (py ''type'', JObj [(py ''name'', JStr (py ''electric'')),
                              (py ''url'', JStr (py ''http://catalog/type/13/''))])]"

definition pikachu_fields :: "(pystr \<times> json) list" where
  "pikachu_fields =
     [(py ''id'', JInt 25), (py ''name'', JStr (py ''pikachu'')),
      (py ''types'', JArr [electric_slot])]"

definition pikachu_body :: json where
  "pikachu_body = JObj pikachu_fields"

definition member :: "string \<Rightarrow> json" where
  "member n = JObj [(py ''name'', JStr (py n)), (py ''url'', JStr (py ''http://catalog/pokemon/'' @ py n))]"

definition type_body :: "json list \<Rightarrow> json" where
  "type_body ms =
     JObj [(py ''id'', JInt 10),
           (py ''pokemon'', JArr (map (\<lambda>m. JObj [(py ''pokemon'', m), (py ''slot'', JInt 1)]) ms))]"

text \<open>A 200 body that parses as JSON but is not an entity or a category: an object
  without the \<^verbatim>\<open>types\<close> and \<^verbatim>\<open>pokemon\<close> keys.\<close>

definition limited_body :: json where
  "limited_body = JObj [(py ''error'', JStr (py ''rate limited''))]"

definition stub_catalog :: "pystr \<Rightarrow> http_reply" where
  "stub_catalog url =
     (if url = py ''http://catalog/pokemon/pikachu'' then Reply 200 (Some pikachu_body)
      else if url = py ''http://catalog/type/fire'' then
        Reply 200 (Some (type_body [member ''a'', member ''b'', member ''c'']))
      else if url = py ''http://catalog/type/water'' then
        Reply 200 (Some (type_body [member ''squirtle'', member ''wartortle'', member ''blastoise'']))
      else if url = py ''http://catalog/type/tie'' then
        Reply 200 (Some (type_body [member ''aa'', member ''bb'']))
      else if url = py ''http://catalog/type/void'' then Reply 200 (Some (type_body []))
      else if url = py ''http://catalog/type/down'' then NetworkError
      else if url = py ''http://catalog/pokemon/down'' then NetworkError
      else if url = py ''http://catalog/type/html'' then Reply 200 None
      else if url = py ''http://catalog/pokemon/html'' then Reply 200 None
      else if url = py ''http://catalog/type/list'' then Reply 200 (Some (JArr []))
      else if url = py ''http://catalog/pokemon/list'' then Reply 200 (Some (JArr []))
      else if url = py ''http://catalog/type/limited'' then Reply 200 (Some limited_body)
      else if url = py ''http://catalog/pokemon/limited'' then Reply 200 (Some limited_body)
      else if url = py ''http://catalog/type/busy'' then Reply 503 None
      else Reply 404 None)"

definition kanto :: world where
  "kanto =
     \<lparr>getenv_EMAILS_PERMITIDOS = Some (py ''ash@kanto.org,misty@kanto.org''),
      POKEAPI_BASE_URL = py ''http://catalog'',
      requests_get = stub_catalog,
      str_lower = ascii_lower,
      randbelow = (\<lambda>n. 1)\<rparr>"

text \<open>The same deployment with the environment variable unset.\<close>

definition kanto_unset :: world where
  "kanto_unset = kanto\<lparr>getenv_EMAILS_PERMITIDOS := None\<rparr>"


text \<open>The request of a session with the given email claim and the given query string.\<close>

definition request_from :: "json \<Rightarrow> (string \<times> string) list \<Rightarrow> request" where
  "request_from email query =
     \<lparr>session = session_of email, args = map (\<lambda>kv. (py (fst kv), py (snd kv))) query\<rparr>"

section \<open>Strings\<close>

lemma py_eq_iff [simp]: "py s = py t \<longleftrightarrow> s = t"
  by (simp add: py_def inj_map_eq_map [OF inj_of_char])

lemma py_eq_Nil [simp]: "py s = [] \<longleftrightarrow> s = []"
  by (simp add: py_def)

lemma py_append: "py (s @ t) = py s @ py t"
  by (simp add: py_def)

text \<open>The fields of the example deployments, and the URL the stub's entity is fetched
  under.\<close>

lemma kanto_fields:
  "getenv_EMAILS_PERMITIDOS kanto = Some (py ''ash@kanto.org,misty@kanto.org'')"
  "POKEAPI_BASE_URL kanto = py ''http://catalog''"
  "requests_get kanto = stub_catalog"
  "str_lower kanto = ascii_lower"
  "randbelow kanto = (\<lambda>n. 1)"
  by (simp_all add: kanto_def)

lemma kanto_unset_fields:
  "getenv_EMAILS_PERMITIDOS kanto_unset = None"
  "POKEAPI_BASE_URL kanto_unset = py ''http://catalog''"
  "requests_get kanto_unset = stub_catalog"
  "str_lower kanto_unset = ascii_lower"
  "randbelow kanto_unset = (\<lambda>n. 1)"
  by (simp_all add: kanto_unset_def kanto_def)

lemma ascii_lower_Pikachu: "ascii_lower (py ''Pikachu'') = py ''pikachu''"
  by (simp add: ascii_lower_def py_def)

lemma pokemon_url_Pikachu:
  assumes "POKEAPI_BASE_URL w = py ''http://catalog''" and "str_lower w = ascii_lower"
  shows "pokemon_url w (py ''Pikachu'') = py ''http://catalog/pokemon/pikachu''"
  by (simp add: pokemon_url_def assms ascii_lower_Pikachu py_append [symmetric])

lemma get_pokemon_type_Pikachu:
  assumes "POKEAPI_BASE_URL w = py ''http://catalog''" and "str_lower w = ascii_lower"
    and "requests_get w = stub_catalog"
    and "map_of (args rq) (py ''name'') = Some (py ''Pikachu'')"
  shows "get_pokemon_type w rq =
    (Json 200 (JObj [(py ''name'', JStr (py ''Pikachu'')),
                     (py ''types'', JArr [JStr (py ''electric'')])]),
     [py ''http://catalog/pokemon/pikachu''])"
  by (simp add: get_pokemon_type_def assms pokemon_url_Pikachu stub_catalog_def
      pikachu_body_def pikachu_fields_def electric_slot_def extract_types_def type_name_def)

section \<open>The authorization decorator\<close>

text \<open>
  C1. The decorator decides in this order. (a) When the session has no \<^verbatim>\<open>"user"\<close>
  entry, or its user object has no \<^verbatim>\<open>"email"\<close> claim, the outcome is the redirect to
  the login route, with no upstream call. (b) Otherwise, when the email is not one of the
  strings of the allow-list (equality of strings, code point by code point, hence
  case-sensitive), the outcome is the 403 abort, with no upstream call. (c) Otherwise the
  outcome is that of the wrapped handler on the same request.
\<close>

theorem requiere_autorizacion_rule:
  "((map_of (session rq) (py ''user'') = None
      \<or> (\<exists>user. map_of (session rq) (py ''user'') = Some user
            \<and> map_of user (py ''email'') = None))
     \<longrightarrow> requiere_autorizacion allow_list f rq = (Redirect (py ''/login''), []))
   \<and> (\<forall>user email.
         map_of (session rq) (py ''user'') = Some user
         \<and> map_of user (py ''email'') = Some email
         \<and> \<not> (\<exists>e. email = JStr e \<and> e \<in> set allow_list)
       \<longrightarrow> requiere_autorizacion allow_list f rq = (Abort 403, []))
   \<and> (\<forall>user e.
         map_of (session rq) (py ''user'') = Some user
         \<and> map_of user (py ''email'') = Some (JStr e)
         \<and> e \<in> set allow_list
       \<longrightarrow> requiere_autorizacion allow_list f rq = f rq)"
  by (auto simp: requiere_autorizacion_def)

theorem requiere_autorizacion_rule_witness:
  "requiere_autorizacion [py ''ash@kanto.org''] ok_handler
      \<lparr>session = [], args = []\<rparr> = (Redirect (py ''/login''), [])
   \<and> requiere_autorizacion [py ''ash@kanto.org''] ok_handler
      \<lparr>session = session_without_email, args = []\<rparr> = (Redirect (py ''/login''), [])
   \<and> requiere_autorizacion [py ''ash@kanto.org''] ok_handler
      \<lparr>session = session_of (JStr (py ''Ash@kanto.org'')), args = []\<rparr> = (Abort 403, [])
   \<and> requiere_autorizacion [py ''ash@kanto.org''] ok_handler
      \<lparr>session = session_of (JStr (py ''ash@kanto.org'')), args = []\<rparr>
     = (Json 200 (JStr (py ''ran'')), [py ''http://upstream''])"
proof -
  let ?al = "[py ''ash@kanto.org'']"
  have a1: "requiere_autorizacion ?al ok_handler \<lparr>session = [], args = []\<rparr>
      = (Redirect (py ''/login''), [])"
    using requiere_autorizacion_rule
      [of "\<lparr>session = [], args = []\<rparr>" ?al ok_handler]
    by simp
  have a2: "requiere_autorizacion ?al ok_handler \<lparr>session = session_without_email, args = []\<rparr>
      = (Redirect (py ''/login''), [])"
    using requiere_autorizacion_rule
      [of "\<lparr>session = session_without_email, args = []\<rparr>" ?al ok_handler]
    by (simp add: session_without_email_def)
  have b: "requiere_autorizacion ?al ok_handler
      \<lparr>session = session_of (JStr (py ''Ash@kanto.org'')), args = []\<rparr> = (Abort 403, [])"
    using requiere_autorizacion_rule
      [of "\<lparr>session = session_of (JStr (py ''Ash@kanto.org'')), args = []\<rparr>" ?al ok_handler]
    by (simp add: session_of_def)
  have c: "requiere_autorizacion ?al ok_handler
      \<lparr>session = session_of (JStr (py ''ash@kanto.org'')), args = []\<rparr>
      = (Json 200 (JStr (py ''ran'')), [py ''http://upstream''])"
    using requiere_autorizacion_rule
      [of "\<lparr>session = session_of (JStr (py ''ash@kanto.org'')), args = []\<rparr>" ?al ok_handler]
    by (simp add: session_of_def ok_handler_def)
  from a1 a2 b c show ?thesis by simp
qed

text \<open>The decorator makes no upstream call of its own: the calls of a guarded route are
  those of its handler, and there are none unless the session's email is on the
  allow-list.\<close>

lemma requiere_autorizacion_calls:
  "snd (requiere_autorizacion allow_list f rq) \<noteq> [] \<Longrightarrow>
     \<exists>user e. map_of (session rq) (py ''user'') = Some user
       \<and> map_of user (py ''email'') = Some (JStr e) \<and> e \<in> set allow_list"
  by (auto simp: requiere_autorizacion_def split: option.splits if_splits)

lemma requiere_autorizacion_forbidden:
  "map_of (session rq) (py ''user'') = Some user \<Longrightarrow>
   map_of user (py ''email'') = Some email \<Longrightarrow>
   \<not> (\<exists>e. email = JStr e \<and> e \<in> set allow_list) \<Longrightarrow>
   requiere_autorizacion allow_list f rq = (Abort 403, [])"
  by (auto simp: requiere_autorizacion_def)


text \<open>The allow-list of the two example deployments.\<close>

lemma EMAILS_PERMITIDOS_kanto:
  "EMAILS_PERMITIDOS kanto = [py ''ash@kanto.org'', py ''misty@kanto.org'']"
  by (simp add: EMAILS_PERMITIDOS_def kanto_def py_split_def py_def)

lemma EMAILS_PERMITIDOS_kanto_unset: "EMAILS_PERMITIDOS kanto_unset = [[]]"
  by (simp add: EMAILS_PERMITIDOS_def kanto_unset_def py_split_def)

text \<open>
  C2. A request whose session carries an email that is not on the allow-list gets the 403
  abort from each of the three routes and no upstream URL is fetched, whatever the upstream
  would answer. More generally, when any of the three routes fetches an upstream URL, the
  session's email is a string of the allow-list, that is, the decorator let the request
  through.
\<close>

theorem forbidden_routes_make_no_upstream_call:
  "(\<forall>user email.
       map_of (session rq) (py ''user'') = Some user
       \<and> map_of user (py ''email'') = Some email
       \<and> \<not> (\<exists>e. email = JStr e \<and> e \<in> set (EMAILS_PERMITIDOS w))
     \<longrightarrow> route_pokemon_type w rq = (Abort 403, [])
       \<and> route_pokemon_random w rq = (Abort 403, [])
       \<and> route_pokemon_longest w rq = (Abort 403, []))
   \<and> ((snd (route_pokemon_type w rq) \<noteq> []
        \<or> snd (route_pokemon_random w rq) \<noteq> []
        \<or> snd (route_pokemon_longest w rq) \<noteq> [])
     \<longrightarrow> (\<exists>user e. map_of (session rq) (py ''user'') = Some user
            \<and> map_of user (py ''email'') = Some (JStr e)
            \<and> e \<in> set (EMAILS_PERMITIDOS w)))"
proof (intro conjI allI impI)
  fix user email
  assume h: "map_of (session rq) (py ''user'') = Some user
    \<and> map_of user (py ''email'') = Some email
    \<and> \<not> (\<exists>e. email = JStr e \<and> e \<in> set (EMAILS_PERMITIDOS w))"
  then show "route_pokemon_type w rq = (Abort 403, [])"
    unfolding route_pokemon_type_def by (blast intro: requiere_autorizacion_forbidden)
  from h show "route_pokemon_random w rq = (Abort 403, [])"
    unfolding route_pokemon_random_def by (blast intro: requiere_autorizacion_forbidden)
  from h show "route_pokemon_longest w rq = (Abort 403, [])"
    unfolding route_pokemon_longest_def by (blast intro: requiere_autorizacion_forbidden)
next
  assume "snd (route_pokemon_type w rq) \<noteq> []
    \<or> snd (route_pokemon_random w rq) \<noteq> []
    \<or> snd (route_pokemon_longest w rq) \<noteq> []"
  then show "\<exists>user e. map_of (session rq) (py ''user'') = Some user
      \<and> map_of user (py ''email'') = Some (JStr e) \<and> e \<in> set (EMAILS_PERMITIDOS w)"
    unfolding route_pokemon_type_def route_pokemon_random_def route_pokemon_longest_def
    using requiere_autorizacion_calls by blast
qed

theorem forbidden_routes_make_no_upstream_call_witness:
  "route_pokemon_type kanto
      (request_from (JStr (py ''gary@kanto.org'')) [(''name'', ''Pikachu'')]) = (Abort 403, [])
   \<and> route_pokemon_random kanto
      (request_from (JStr (py ''gary@kanto.org'')) [(''name'', ''Pikachu'')]) = (Abort 403, [])
   \<and> route_pokemon_longest kanto
      (request_from (JStr (py ''gary@kanto.org'')) [(''name'', ''Pikachu'')]) = (Abort 403, [])
   \<and> snd (route_pokemon_type kanto
      (request_from (JStr (py ''ash@kanto.org'')) [(''name'', ''Pikachu'')]))
     = [py ''http://catalog/pokemon/pikachu'']
   \<and> (\<exists>user e.
        map_of (session (request_from (JStr (py ''ash@kanto.org'')) [(''name'', ''Pikachu'')]))
          (py ''user'') = Some user
        \<and> map_of user (py ''email'') = Some (JStr e)
        \<and> e \<in> set (EMAILS_PERMITIDOS kanto))"
proof -
  let ?denied = "request_from (JStr (py ''gary@kanto.org'')) [(''name'', ''Pikachu'')]"
  let ?granted = "request_from (JStr (py ''ash@kanto.org'')) [(''name'', ''Pikachu'')]"
  have denied: "route_pokemon_type kanto ?denied = (Abort 403, [])
      \<and> route_pokemon_random kanto ?denied = (Abort 403, [])
      \<and> route_pokemon_longest kanto ?denied = (Abort 403, [])"
    using forbidden_routes_make_no_upstream_call [of ?denied kanto]
    by (simp add: request_from_def session_of_def EMAILS_PERMITIDOS_kanto)
  have "route_pokemon_type kanto ?granted = get_pokemon_type kanto ?granted"
    by (simp add: route_pokemon_type_def requiere_autorizacion_def EMAILS_PERMITIDOS_kanto
        request_from_def session_of_def)
  then have calls: "snd (route_pokemon_type kanto ?granted) = [py ''http://catalog/pokemon/pikachu'']"
    by (simp add: get_pokemon_type_Pikachu kanto_fields request_from_def)
  then have "snd (route_pokemon_type kanto ?granted) \<noteq> []"
    by simp
  with forbidden_routes_make_no_upstream_call [of ?granted kanto]
  have granted: "\<exists>user e. map_of (session ?granted) (py ''user'') = Some user
      \<and> map_of user (py ''email'') = Some (JStr e) \<and> e \<in> set (EMAILS_PERMITIDOS kanto)"
    by blast
  from denied calls granted show ?thesis
    by blast
qed

text \<open>What holds of a session without a populated email: when the claim is absent every
  route redirects to the login, and when it is the empty string the decision is that of
  the allow-list, which holds the empty string as soon as the variable is unset.\<close>

lemma routes_without_email_claim:
  assumes "map_of (session rq) (py ''user'') = Some user"
    and "map_of user (py ''email'') = None"
  shows "route_pokemon_type w rq = (Redirect (py ''/login''), [])"
    and "route_pokemon_random w rq = (Redirect (py ''/login''), [])"
    and "route_pokemon_longest w rq = (Redirect (py ''/login''), [])"
  using assms
  by (simp_all add: route_pokemon_type_def route_pokemon_random_def route_pokemon_longest_def
      requiere_autorizacion_def)

lemma EMAILS_PERMITIDOS_unset:
  "getenv_EMAILS_PERMITIDOS w = None \<Longrightarrow> EMAILS_PERMITIDOS w = [[]]"
  by (simp add: EMAILS_PERMITIDOS_def py_split_def)

lemma routes_with_empty_email_when_unset:
  assumes "getenv_EMAILS_PERMITIDOS w = None"
    and "map_of (session rq) (py ''user'') = Some user"
    and "map_of user (py ''email'') = Some (JStr [])"
  shows "route_pokemon_type w rq = get_pokemon_type w rq"
    and "route_pokemon_random w rq = get_random_pokemon_by_type w rq"
    and "route_pokemon_longest w rq = get_longest_name_pokemon w rq"
  using assms
  by (simp_all add: route_pokemon_type_def route_pokemon_random_def route_pokemon_longest_def
      requiere_autorizacion_def EMAILS_PERMITIDOS_unset)

text \<open>
  C3. With the environment variable \<^verbatim>\<open>EMAILS_PERMITIDOS\<close> unset, line 23 splits the
  empty string and the allow-list is the list holding the empty string. A session whose
  email claim is the empty string is then let through: the guarded route runs its handler,
  fetches the entity upstream and answers 200.
\<close>

theorem empty_email_passes_when_allow_list_unset:
  "EMAILS_PERMITIDOS kanto_unset = [[]]
   \<and> route_pokemon_type kanto_unset (request_from (JStr []) [(''name'', ''Pikachu'')])
     = (Json 200 (JObj [(py ''name'', JStr (py ''Pikachu'')),
                        (py ''types'', JArr [JStr (py ''electric'')])]),
        [py ''http://catalog/pokemon/pikachu''])"
proof -
  let ?rq = "request_from (JStr []) [(''name'', ''Pikachu'')]"
  have "route_pokemon_type kanto_unset ?rq = get_pokemon_type kanto_unset ?rq"
    by (simp add: route_pokemon_type_def requiere_autorizacion_def
        EMAILS_PERMITIDOS_kanto_unset request_from_def session_of_def)
  then show ?thesis
    by (simp add: EMAILS_PERMITIDOS_kanto_unset get_pokemon_type_Pikachu kanto_unset_fields
        request_from_def)
qed

section \<open>Query parameters\<close>



text \<open>
  C10. A parameter that is present with the empty string as its value is handled as a
  missing one: the handler answers the same 400 response naming the parameter and fetches
  no upstream URL, so its outcome equals that of any request without the parameter.
\<close>

theorem empty_parameter_is_400:
  "(map_of (args rq) (py ''name'') = Some []
     \<longrightarrow> get_pokemon_type w rq = (Json 400 (error_body (falta_el_parametro ''name'')), [])
       \<and> (\<forall>rq'. map_of (args rq') (py ''name'') = None
             \<longrightarrow> get_pokemon_type w rq = get_pokemon_type w rq'))
   \<and> (map_of (args rq) (py ''type'') = Some []
     \<longrightarrow> get_random_pokemon_by_type w rq
           = (Json 400 (error_body (falta_el_parametro ''type'')), [])
       \<and> get_longest_name_pokemon w rq
           = (Json 400 (error_body (falta_el_parametro ''type'')), [])
       \<and> (\<forall>rq'. map_of (args rq') (py ''type'') = None
             \<longrightarrow> get_random_pokemon_by_type w rq = get_random_pokemon_by_type w rq'
               \<and> get_longest_name_pokemon w rq = get_longest_name_pokemon w rq'))"
  by (simp add: get_pokemon_type_def get_random_pokemon_by_type_def
      get_longest_name_pokemon_def)

theorem empty_parameter_is_400_witness:
  "get_pokemon_type kanto (request_from (JStr (py ''ash@kanto.org'')) [(''name'', [])])
     = (Json 400 (error_body (falta_el_parametro ''name'')), [])
   \<and> get_pokemon_type kanto (request_from (JStr (py ''ash@kanto.org'')) [(''name'', [])])
     = get_pokemon_type kanto (request_from (JStr (py ''ash@kanto.org'')) [])
   \<and> get_random_pokemon_by_type kanto
       (request_from (JStr (py ''ash@kanto.org'')) [(''type'', [])])
     = (Json 400 (error_body (falta_el_parametro ''type'')), [])
   \<and> get_longest_name_pokemon kanto
       (request_from (JStr (py ''ash@kanto.org'')) [(''type'', [])])
     = (Json 400 (error_body (falta_el_parametro ''type'')), [])
   \<and> get_random_pokemon_by_type kanto
       (request_from (JStr (py ''ash@kanto.org'')) [(''type'', [])])
     = get_random_pokemon_by_type kanto (request_from (JStr (py ''ash@kanto.org'')) [])
   \<and> get_longest_name_pokemon kanto
       (request_from (JStr (py ''ash@kanto.org'')) [(''type'', [])])
     = get_longest_name_pokemon kanto (request_from (JStr (py ''ash@kanto.org'')) [])"
proof -
  let ?none = "request_from (JStr (py ''ash@kanto.org'')) []"
  have n: "map_of (args ?none) (py ''name'') = None" "map_of (args ?none) (py ''type'') = None"
    by (simp_all add: request_from_def)
  have name: "map_of (args (request_from (JStr (py ''ash@kanto.org'')) [(''name'', [])]))
      (py ''name'') = Some []"
    by (simp add: request_from_def py_def)
  have type: "map_of (args (request_from (JStr (py ''ash@kanto.org'')) [(''type'', [])]))
      (py ''type'') = Some []"
    by (simp add: request_from_def py_def)
  show ?thesis
    using empty_parameter_is_400
        [of "request_from (JStr (py ''ash@kanto.org'')) [(''name'', [])]" kanto]
      empty_parameter_is_400
        [of "request_from (JStr (py ''ash@kanto.org'')) [(''type'', [])]" kanto]
      n name type
    by blast
qed

section \<open>The type lookup\<close>






section \<open>Upstream failures\<close>



lemma type_url_kanto:
  "type_url kanto (py ''busy'') = py ''http://catalog/type/busy''"
  "type_url kanto (py ''Void'') = py ''http://catalog/type/void''"
  "type_url kanto (py ''ghost'') = py ''http://catalog/type/ghost''"
  "type_url kanto (py ''down'') = py ''http://catalog/type/down''"
  "type_url kanto (py ''html'') = py ''http://catalog/type/html''"
  "type_url kanto (py ''Fire'') = py ''http://catalog/type/fire''"
  "type_url kanto (py ''water'') = py ''http://catalog/type/water''"
  "type_url kanto (py ''tie'') = py ''http://catalog/type/tie''"
  "type_url kanto (py ''list'') = py ''http://catalog/type/list''"
  "type_url kanto (py ''limited'') = py ''http://catalog/type/limited''"
  by (simp_all add: type_url_def kanto_fields ascii_lower_def py_def)

lemma stub_catalog_type:
  "stub_catalog (py ''http://catalog/type/busy'') = Reply 503 None"
  "stub_catalog (py ''http://catalog/type/void'') = Reply 200 (Some (type_body []))"
  "stub_catalog (py ''http://catalog/type/ghost'') = Reply 404 None"
  "stub_catalog (py ''http://catalog/type/down'') = NetworkError"
  "stub_catalog (py ''http://catalog/type/html'') = Reply 200 None"
  "stub_catalog (py ''http://catalog/type/list'') = Reply 200 (Some (JArr []))"
  "stub_catalog (py ''http://catalog/type/limited'') = Reply 200 (Some limited_body)"
  "stub_catalog (py ''http://catalog/type/fire'')
     = Reply 200 (Some (type_body [member ''a'', member ''b'', member ''c'']))"
  "stub_catalog (py ''http://catalog/type/water'')
     = Reply 200 (Some (type_body [member ''squirtle'', member ''wartortle'', member ''blastoise'']))"
  "stub_catalog (py ''http://catalog/type/tie'')
     = Reply 200 (Some (type_body [member ''aa'', member ''bb'']))"
  by (simp_all add: stub_catalog_def)

lemma pokemon_list_type_body: "pokemon_list (type_body ms) = Some ms"
  by (induction ms) (simp_all add: pokemon_list_def type_body_def)

lemma args_request_from:
  "map_of (args (request_from email [(k, v)])) (py k) = Some (py v)"
  by (simp add: request_from_def)

text \<open>
  C5. For a non-empty \<^verbatim>\<open>type\<close> parameter, the random and the longest-name handlers
  answer every upstream status other than 200 (404 or any other) with the 404 response
  \<^verbatim>\<open>Tipo no encontrado\<close>, and an upstream 200 whose member list is empty with the
  404 response \<^verbatim>\<open>No se encontraron Pokemon para este tipo\<close>. Both are 404 and the
  two bodies differ.
\<close>

theorem category_not_found_outcomes:
  assumes "map_of (args rq) (py ''type'') = Some t" and "t \<noteq> []"
  shows "(\<forall>status body.
            requests_get w (type_url w t) = Reply status body \<and> status \<noteq> 200
          \<longrightarrow> get_random_pokemon_by_type w rq
                = (Json 404 (error_body ''Tipo no encontrado''), [type_url w t])
            \<and> get_longest_name_pokemon w rq
                = (Json 404 (error_body ''Tipo no encontrado''), [type_url w t]))
       \<and> (\<forall>data.
            requests_get w (type_url w t) = Reply 200 (Some data) \<and> pokemon_list data = Some []
          \<longrightarrow> get_random_pokemon_by_type w rq
                = (Json 404 (error_body ''No se encontraron Pokemon para este tipo''),
                   [type_url w t])
            \<and> get_longest_name_pokemon w rq
                = (Json 404 (error_body ''No se encontraron Pokemon para este tipo''),
                   [type_url w t]))
       \<and> error_body ''Tipo no encontrado''
           \<noteq> error_body ''No se encontraron Pokemon para este tipo''"
  using assms
  by (simp add: get_random_pokemon_by_type_def get_longest_name_pokemon_def error_body_def)

theorem category_not_found_outcomes_witness:
  "get_random_pokemon_by_type kanto (request_from (JStr (py ''ash@kanto.org'')) [(''type'', ''busy'')])
     = (Json 404 (error_body ''Tipo no encontrado''), [py ''http://catalog/type/busy''])
   \<and> get_longest_name_pokemon kanto (request_from (JStr (py ''ash@kanto.org'')) [(''type'', ''busy'')])
     = (Json 404 (error_body ''Tipo no encontrado''), [py ''http://catalog/type/busy''])
   \<and> get_random_pokemon_by_type kanto (request_from (JStr (py ''ash@kanto.org'')) [(''type'', ''ghost'')])
     = (Json 404 (error_body ''Tipo no encontrado''), [py ''http://catalog/type/ghost''])
   \<and> get_longest_name_pokemon kanto (request_from (JStr (py ''ash@kanto.org'')) [(''type'', ''ghost'')])
     = (Json 404 (error_body ''Tipo no encontrado''), [py ''http://catalog/type/ghost''])
   \<and> get_random_pokemon_by_type kanto (request_from (JStr (py ''ash@kanto.org'')) [(''type'', ''Void'')])
     = (Json 404 (error_body ''No se encontraron Pokemon para este tipo''),
        [py ''http://catalog/type/void''])
   \<and> get_longest_name_pokemon kanto (request_from (JStr (py ''ash@kanto.org'')) [(''type'', ''Void'')])
     = (Json 404 (error_body ''No se encontraron Pokemon para este tipo''),
        [py ''http://catalog/type/void''])"
proof -
  have busy: "requests_get kanto (type_url kanto (py ''busy'')) = Reply 503 None
      \<and> (503::int) \<noteq> 200"
    by (simp add: kanto_fields type_url_kanto stub_catalog_type)
  have ghost: "requests_get kanto (type_url kanto (py ''ghost'')) = Reply 404 None
      \<and> (404::int) \<noteq> 200"
    by (simp add: kanto_fields type_url_kanto stub_catalog_type)
  have void: "requests_get kanto (type_url kanto (py ''Void'')) = Reply 200 (Some (type_body []))
      \<and> pokemon_list (type_body []) = Some []"
    by (simp add: kanto_fields type_url_kanto stub_catalog_type pokemon_list_type_body)
  have nonempty: "py ''busy'' \<noteq> []" "py ''ghost'' \<noteq> []" "py ''Void'' \<noteq> []"
    by simp_all
  show ?thesis
    using category_not_found_outcomes [OF args_request_from nonempty(1), of kanto] busy
      category_not_found_outcomes [OF args_request_from nonempty(2), of kanto] ghost
      category_not_found_outcomes [OF args_request_from nonempty(3), of kanto] void
    by (simp add: type_url_kanto)
qed




section \<open>The member of longest name\<close>

text \<open>The loop of \<^verbatim>\<open>max\<close> keeps the first item of maximal key: with the items seen
  so far split around the kept item \<open>m\<close>, those before \<open>m\<close> have a smaller key and
  those after it a key that is not greater.\<close>

lemma max_loop_first_maximum:
  assumes "\<forall>x\<in>set rest. key x = Some (k x)"
    and "\<forall>x\<in>set before. k x < k m"
    and "\<forall>x\<in>set between. k x \<le> k m"
  shows "\<exists>pre best post.
           max_loop key m (k m) rest = Some best
           \<and> before @ m # between @ rest = pre @ best # post
           \<and> (\<forall>x\<in>set pre. k x < k best)
           \<and> (\<forall>x\<in>set post. k x \<le> k best)"
  using assms
proof (induction rest arbitrary: before m between)
  case Nil
  then show ?case
    by (intro exI [of _ before] exI [of _ m] exI [of _ between]) simp
next
  case (Cons x rest)
  have kx: "key x = Some (k x)" and rest: "\<forall>y\<in>set rest. key y = Some (k y)"
    using Cons.prems(1) by simp_all
  show ?case
  proof (cases "k x > k m")
    case True
    have "\<forall>y\<in>set (before @ m # between). k y < k x"
      using Cons.prems(2,3) True by auto
    from Cons.IH [OF rest this, of "[]"] kx True show ?thesis
      by simp
  next
    case False
    have "\<forall>y\<in>set (between @ [x]). k y \<le> k m"
      using Cons.prems(3) False by auto
    from Cons.IH [OF rest Cons.prems(2) this] kx False show ?thesis
      by simp
  qed
qed

lemma py_max_first_maximum:
  assumes "xs \<noteq> []" and "\<forall>x\<in>set xs. key x = Some (k x)"
  shows "\<exists>pre best post.
           py_max key xs = Some best
           \<and> xs = pre @ best # post
           \<and> (\<forall>x\<in>set pre. k x < k best)
           \<and> (\<forall>x\<in>set post. k x \<le> k best)"
proof (cases xs)
  case Nil
  with assms(1) show ?thesis by simp
next
  case (Cons m rest)
  with assms(2) have "key m = Some (k m)" and "\<forall>x\<in>set rest. key x = Some (k x)"
    by simp_all
  with max_loop_first_maximum [of rest key k "[]" m "[]"] Cons show ?thesis
    by (simp add: py_max_def)
qed

lemma name_len_string:
  "py_getitem m (py ''name'') = Some (JStr n) \<Longrightarrow> name_len m = Some (length n)"
  by (simp add: name_len_def)

lemma name_len_member: "name_len (member n) = Some (length n)"
  by (simp add: name_len_def member_def py_def)

text \<open>
  C4. When the upstream answers 200 with a non-empty member list in which every member
  carries a name that has a length, the longest-name handler answers 200 with one member
  of the list, unchanged, after fetching the category once. Every member before it in the
  upstream order has a strictly shorter name and every member after it has a name that is
  not longer: it is the first member of maximal name length. Here \<open>name_len m\<close> is
  \<^verbatim>\<open>len(m['name'])\<close>, the number of characters when the name is a string. On the
  members \<^verbatim>\<open>aa\<close>, \<^verbatim>\<open>bb\<close> the answer is \<^verbatim>\<open>aa\<close>.
\<close>

theorem longest_name_is_first_maximum:
  assumes "map_of (args rq) (py ''type'') = Some t" and "t \<noteq> []"
    and "requests_get w (type_url w t) = Reply 200 (Some data)"
    and "pokemon_list data = Some members" and "members \<noteq> []"
    and "\<forall>m\<in>set members. name_len m \<noteq> None"
  shows "\<exists>pre best post n.
           get_longest_name_pokemon w rq = (Json 200 best, [type_url w t])
           \<and> members = pre @ best # post
           \<and> name_len best = Some n
           \<and> (\<forall>m\<in>set pre. \<exists>j. name_len m = Some j \<and> j < n)
           \<and> (\<forall>m\<in>set post. \<exists>j. name_len m = Some j \<and> j \<le> n)"
proof -
  define k where "k m = (case name_len m of None \<Rightarrow> 0 | Some j \<Rightarrow> j)" for m
  have key: "\<forall>m\<in>set members. name_len m = Some (k m)"
    using assms(6) by (auto simp: k_def)
  from py_max_first_maximum [OF assms(5) key]
  obtain pre best post where best: "py_max name_len members = Some best"
    and split: "members = pre @ best # post"
    and pre: "\<forall>x\<in>set pre. k x < k best"
    and post: "\<forall>x\<in>set post. k x \<le> k best"
    by blast
  from split key have len: "name_len best = Some (k best)"
    by simp
  then have named: "py_getitem best (py ''name'') \<noteq> None"
    by (auto simp: name_len_def split: option.splits)
  have "get_longest_name_pokemon w rq = (Json 200 best, [type_url w t])"
    using assms(1-5) best named
    by (auto simp: get_longest_name_pokemon_def)
  moreover have "\<forall>m\<in>set pre. \<exists>j. name_len m = Some j \<and> j < k best"
    using pre key split by auto
  moreover have "\<forall>m\<in>set post. \<exists>j. name_len m = Some j \<and> j \<le> k best"
    using post key split by auto
  ultimately show ?thesis
    using split len by blast
qed

lemma member_eq_iff [simp]: "member a = member b \<longleftrightarrow> a = b"
  by (auto simp: member_def)

theorem longest_name_is_first_maximum_witness:
  "get_longest_name_pokemon kanto (request_from (JStr (py ''ash@kanto.org'')) [(''type'', ''tie'')])
     = (Json 200 (member ''aa''), [py ''http://catalog/type/tie''])
   \<and> get_longest_name_pokemon kanto
       (request_from (JStr (py ''ash@kanto.org'')) [(''type'', ''water'')])
     = (Json 200 (member ''wartortle''), [py ''http://catalog/type/water''])"
proof -
  let ?email = "JStr (py ''ash@kanto.org'')"
  let ?tie = "[member ''aa'', member ''bb'']"
  let ?water = "[member ''squirtle'', member ''wartortle'', member ''blastoise'']"
  have nonempty: "py ''tie'' \<noteq> []" "py ''water'' \<noteq> []"
    by simp_all
  have tie: "requests_get kanto (type_url kanto (py ''tie'')) = Reply 200 (Some (type_body ?tie))"
    by (simp add: kanto_fields type_url_kanto stub_catalog_type)
  have water: "requests_get kanto (type_url kanto (py ''water''))
      = Reply 200 (Some (type_body ?water))"
    by (simp add: kanto_fields type_url_kanto stub_catalog_type)
  have named_tie: "\<forall>m\<in>set ?tie. name_len m \<noteq> None"
    by (simp add: name_len_member)
  have named_water: "\<forall>m\<in>set ?water. name_len m \<noteq> None"
    by (simp add: name_len_member)
  from longest_name_is_first_maximum
    [OF args_request_from nonempty(1) tie pokemon_list_type_body _ named_tie, of ?email]
  obtain pre best post n where
    t1: "get_longest_name_pokemon kanto (request_from ?email [(''type'', ''tie'')])
        = (Json 200 best, [type_url kanto (py ''tie'')])"
    and t2: "?tie = pre @ best # post"
    and t3: "name_len best = Some n"
    and t4: "\<forall>m\<in>set pre. \<exists>j. name_len m = Some j \<and> j < n"
    by auto
  from t2 t3 t4 have "best = member ''aa''"
    by (auto simp: Cons_eq_append_conv name_len_member)
  with t1 have first: "get_longest_name_pokemon kanto (request_from ?email [(''type'', ''tie'')])
      = (Json 200 (member ''aa''), [py ''http://catalog/type/tie''])"
    by (simp add: type_url_kanto)
  from longest_name_is_first_maximum
    [OF args_request_from nonempty(2) water pokemon_list_type_body _ named_water, of ?email]
  obtain pre' best' post' n' where
    w1: "get_longest_name_pokemon kanto (request_from ?email [(''type'', ''water'')])
        = (Json 200 best', [type_url kanto (py ''water'')])"
    and w2: "?water = pre' @ best' # post'"
    and w3: "name_len best' = Some n'"
    and w4: "\<forall>m\<in>set pre'. \<exists>j. name_len m = Some j \<and> j < n'"
    and w5: "\<forall>m\<in>set post'. \<exists>j. name_len m = Some j \<and> j \<le> n'"
    by auto
  from w2 w3 w4 w5 have "best' = member ''wartortle''"
    by (auto simp: Cons_eq_append_conv name_len_member)
  with w1 have second: "get_longest_name_pokemon kanto
      (request_from ?email [(''type'', ''water'')])
      = (Json 200 (member ''wartortle''), [py ''http://catalog/type/water''])"
    by (simp add: type_url_kanto)
  from first second show ?thesis
    by simp
qed

section \<open>The random member\<close>

lemma draws_selecting:
  "card {i. i < length xs \<and> xs ! i = m} = count_list xs m"
proof -
  have "{i. i < length xs \<and> xs ! i = m} = {i. i < length xs \<and> m = xs ! i}"
    by auto
  then show ?thesis
    by (simp add: count_list_eq_length_filter length_filter_conv_card)
qed

lemma random_choice_in_range:
  "randbelow w (length seq) < length seq \<Longrightarrow>
     random_choice w seq = Some (seq ! randbelow w (length seq))"
  by (simp add: random_choice_def)

lemma get_random_pokemon_by_type_draw:
  assumes "map_of (args rq) (py ''type'') = Some t" and "t \<noteq> []"
    and "requests_get w (type_url w t) = Reply 200 (Some data)"
    and "pokemon_list data = Some members" and "members \<noteq> []"
    and "\<forall>m\<in>set members. py_getitem m (py ''name'') \<noteq> None"
    and "randbelow w (length members) < length members"
  shows "get_random_pokemon_by_type w rq
    = (Json 200 (members ! randbelow w (length members)), [type_url w t])"
proof -
  have "members ! randbelow w (length members) \<in> set members"
    using assms(7) by simp
  with assms(6) obtain logged_name
    where "py_getitem (members ! randbelow w (length members)) (py ''name'') = Some logged_name"
    by blast
  with assms(1-5,7) show ?thesis
    by (simp add: get_random_pokemon_by_type_def random_choice_in_range)
qed

text \<open>
  C7. When the upstream answers 200 with a non-empty member list in which every member
  carries a name, and the draw of \<^verbatim>\<open>random.choice\<close> lies below the length of the
  list (as the library guarantees), the random handler answers 200 with the member at the
  drawn position, unchanged, and the category URL is the only URL fetched (the entity is
  not fetched again). The answer is a member of the list whatever the draw. Of the
  \<open>length members\<close> possible draws, the number that make the handler answer a given
  member is the number of times that member occurs in the list: every position of the
  full list is selected by exactly one draw, so a uniform draw selects uniformly.
\<close>

theorem random_member_is_returned:
  assumes "map_of (args rq) (py ''type'') = Some t" and "t \<noteq> []"
    and "requests_get w (type_url w t) = Reply 200 (Some data)"
    and "pokemon_list data = Some members" and "members \<noteq> []"
    and "\<forall>m\<in>set members. py_getitem m (py ''name'') \<noteq> None"
    and "randbelow w (length members) < length members"
  shows "get_random_pokemon_by_type w rq
           = (Json 200 (members ! randbelow w (length members)), [type_url w t])
       \<and> members ! randbelow w (length members) \<in> set members
       \<and> (\<forall>m. card {i. i < length members
                     \<and> fst (get_random_pokemon_by_type (w\<lparr>randbelow := \<lambda>n. i\<rparr>) rq) = Json 200 m}
              = count_list members m)"
proof (intro conjI allI)
  show "get_random_pokemon_by_type w rq
      = (Json 200 (members ! randbelow w (length members)), [type_url w t])"
    using assms by (rule get_random_pokemon_by_type_draw)
  show "members ! randbelow w (length members) \<in> set members"
    using assms(7) by simp
next
  fix m
  have "fst (get_random_pokemon_by_type (w\<lparr>randbelow := \<lambda>n. i\<rparr>) rq) = Json 200 (members ! i)"
    if "i < length members" for i
  proof -
    let ?w = "w\<lparr>randbelow := \<lambda>n. i\<rparr>"
    have url: "type_url ?w t = type_url w t"
      by (simp add: type_url_def)
    have "get_random_pokemon_by_type ?w rq
        = (Json 200 (members ! randbelow ?w (length members)), [type_url ?w t])"
      using assms(1,2) _ assms(4,5,6)
    proof (rule get_random_pokemon_by_type_draw)
      show "requests_get ?w (type_url ?w t) = Reply 200 (Some data)"
        using assms(3) by (simp add: url)
      show "randbelow ?w (length members) < length members"
        using that by simp
    qed
    then show ?thesis by simp
  qed
  then have "{i. i < length members
        \<and> fst (get_random_pokemon_by_type (w\<lparr>randbelow := \<lambda>n. i\<rparr>) rq) = Json 200 m}
      = {i. i < length members \<and> members ! i = m}"
    by auto
  then show "card {i. i < length members
        \<and> fst (get_random_pokemon_by_type (w\<lparr>randbelow := \<lambda>n. i\<rparr>) rq) = Json 200 m}
      = count_list members m"
    by (simp add: draws_selecting)
qed

lemma type_url_randbelow_update: "type_url (w\<lparr>randbelow := f\<rparr>) t = type_url w t"
  by (simp add: type_url_def)

lemma member_has_name: "py_getitem (member n) (py ''name'') = Some (JStr (py n))"
  by (simp add: member_def)

theorem random_member_is_returned_witness:
  "get_random_pokemon_by_type (kanto\<lparr>randbelow := \<lambda>n. 0\<rparr>)
       (request_from (JStr (py ''ash@kanto.org'')) [(''type'', ''Fire'')])
     = (Json 200 (member ''a''), [py ''http://catalog/type/fire''])
   \<and> get_random_pokemon_by_type (kanto\<lparr>randbelow := \<lambda>n. 1\<rparr>)
       (request_from (JStr (py ''ash@kanto.org'')) [(''type'', ''Fire'')])
     = (Json 200 (member ''b''), [py ''http://catalog/type/fire''])
   \<and> get_random_pokemon_by_type (kanto\<lparr>randbelow := \<lambda>n. 2\<rparr>)
       (request_from (JStr (py ''ash@kanto.org'')) [(''type'', ''Fire'')])
     = (Json 200 (member ''c''), [py ''http://catalog/type/fire''])
   \<and> card {i. i < 3
          \<and> fst (get_random_pokemon_by_type (kanto\<lparr>randbelow := \<lambda>n. i\<rparr>)
                 (request_from (JStr (py ''ash@kanto.org'')) [(''type'', ''Fire'')]))
              = Json 200 (member ''b'')} = 1"
proof -
  let ?rq = "request_from (JStr (py ''ash@kanto.org'')) [(''type'', ''Fire'')]"
  let ?fire = "[member ''a'', member ''b'', member ''c'']"
  have nonempty: "py ''Fire'' \<noteq> []"
    by simp
  have fire: "requests_get (kanto\<lparr>randbelow := f\<rparr>) (type_url (kanto\<lparr>randbelow := f\<rparr>) (py ''Fire''))
      = Reply 200 (Some (type_body ?fire))" for f
    by (simp add: kanto_fields type_url_randbelow_update type_url_kanto stub_catalog_type)
  have named: "\<forall>m\<in>set ?fire. py_getitem m (py ''name'') \<noteq> None"
    by (simp add: member_has_name)
  have draw: "randbelow (kanto\<lparr>randbelow := \<lambda>n. i\<rparr>) (length ?fire) < length ?fire"
    if "i < 3" for i
    using that by simp
  have chosen: "get_random_pokemon_by_type (kanto\<lparr>randbelow := \<lambda>n. i\<rparr>) ?rq
        = (Json 200 (?fire ! i), [py ''http://catalog/type/fire''])"
    if "i < 3" for i
    using random_member_is_returned
      [OF args_request_from nonempty fire pokemon_list_type_body _ named draw [OF that]]
    by (simp add: type_url_randbelow_update type_url_kanto)
  have "card {i. i < length ?fire
      \<and> fst (get_random_pokemon_by_type (kanto\<lparr>randbelow := \<lambda>n. i\<rparr>) ?rq)
          = Json 200 (member ''b'')} = count_list ?fire (member ''b'')"
    using random_member_is_returned
      [OF args_request_from nonempty fire pokemon_list_type_body _ named draw [of 0],
       of "JStr (py ''ash@kanto.org'')"]
    by simp
  then have counted: "card {i. i < 3
      \<and> fst (get_random_pokemon_by_type (kanto\<lparr>randbelow := \<lambda>n. i\<rparr>) ?rq)
          = Json 200 (member ''b'')} = 1"
    by (simp add: numeral_3_eq_3)
  from chosen [of 0] chosen [of 1] chosen [of 2] counted show ?thesis
    by simp
qed

end
